theory Spec2Isabelle
  imports Main
begin

section \<open>JavaScript values as the script observes them\<close>

text \<open>
  The script receives JSON from the backend and values from the Telegram host. It applies
  three operations to them: the boolean test of \<^verbatim>\<open>!x\<close> and \<^verbatim>\<open>x || y\<close>, the string
  conversion of a template literal, and a property read. A number is given by the results
  of the first two (IEEE doubles are not modelled): \<open>JNum b t\<close> is a number whose boolean
  test is \<open>b\<close> and whose string conversion is \<open>t\<close>. A string is a list of characters;
  the few non-ASCII literals of the script are named constants holding their UTF-8 bytes.
\<close>

datatype jsval =
    JUndef
  | JNull
  | JBool bool
  | JNum bool string
  | JStr string
  | JArr "jsval list"
  | JObj "(string \<times> jsval) list"

fun truthy :: "jsval \<Rightarrow> bool" where
  "truthy JUndef = False"
| "truthy JNull = False"
| "truthy (JBool b) = b"
| "truthy (JNum b t) = b"
| "truthy (JStr t) = (t \<noteq> [])"
| "truthy (JArr xs) = True"
| "truthy (JObj kvs) = True"

fun nullish :: "jsval \<Rightarrow> bool" where
  "nullish JUndef = True"
| "nullish JNull = True"
| "nullish v = False"

fun join_comma :: "string list \<Rightarrow> string" where
  "join_comma [] = []"
| "join_comma [x] = x"
| "join_comma (x # y # ys) = x @ '','' @ join_comma (y # ys)"

text \<open>
  String conversion, as a template literal \<^verbatim>\<open>`${v}`\<close> and the setters of \<open>value\<close>,
  \<open>href\<close> and \<open>setItem\<close> perform it. It raises a TypeError on an object that has an own
  entry \<open>toString\<close> (a parsed value is never a function, and \<open>valueOf\<close> of the prototype
  returns the object), and on an array that holds such an object: \<open>convertible\<close> says that
  it does not raise, and \<open>to_str\<close> is the text it then gives. Every conversion of a value of
  the backend below tests \<open>convertible\<close> first and raises otherwise.
\<close>

fun convertible :: "jsval \<Rightarrow> bool" where
  "convertible (JObj kvs) = (map_of kvs ''toString'' = None)"
| "convertible (JArr xs) = list_all (\<lambda>x. nullish x \<or> convertible x) xs"
| "convertible v = True"

fun to_str :: "jsval \<Rightarrow> string" where
  "to_str JUndef = ''undefined''"
| "to_str JNull = ''null''"
| "to_str (JBool b) = (if b then ''true'' else ''false'')"
| "to_str (JNum b t) = t"
| "to_str (JStr t) = t"
| "to_str (JArr xs) = join_comma (map (\<lambda>x. if nullish x then [] else to_str x) xs)"
| "to_str (JObj kvs) = ''[object Object]''"

text \<open>
  A property read \<^verbatim>\<open>v.k\<close> on a value that is neither null nor undefined, for the property
  names the script reads (ok, message, error, session, balance, ref_link, packages,
  support_link, invoice_link, spreads, stars, key, user, id): none of them is defined on a
  prototype, so only an object's own entry answers. On null and undefined the read raises a
  TypeError; each caller tests \<open>nullish\<close> before its first read.
\<close>

fun get_prop :: "jsval \<Rightarrow> string \<Rightarrow> jsval" where
  "get_prop (JObj kvs) k = (case map_of kvs k of None \<Rightarrow> JUndef | Some v \<Rightarrow> v)"
| "get_prop v k = JUndef"

text \<open>Optional chaining \<^verbatim>\<open>v?.k\<close>.\<close>

definition opt_prop :: "jsval \<Rightarrow> string \<Rightarrow> jsval" where
  "opt_prop v k = (if nullish v then JUndef else get_prop v k)"

text \<open>\<^verbatim>\<open>a || b\<close>\<close>

definition or_else :: "jsval \<Rightarrow> jsval \<Rightarrow> jsval" where
  "or_else a b = (if truthy a then a else b)"

text \<open>
  A thrown value \<open>e\<close>, given by what the handlers read of it: \<^verbatim>\<open>e?.message\<close> and the
  string conversion of \<open>e\<close> itself. Thrown values are the errors of the engine, of
  \<open>fetch\<close> and of the host, whose message is a string: converting them does not raise.
\<close>

record exn =
  exn_message :: jsval
  exn_text :: string

text \<open>\<^verbatim>\<open>${e?.message || e}\<close>\<close>

definition err_text :: "exn \<Rightarrow> string" where
  "err_text e = (if truthy (exn_message e) then to_str (exn_message e) else exn_text e)"

datatype 'a attempt = Raises exn | Gives 'a

datatype completion = Normal | Abrupt exn

section \<open>Constants of the script\<close>

definition API_BASE_URL :: string where
  "API_BASE_URL = ''https://api.astrabotai.online''"

text \<open>\<^verbatim>\<open>API_BASE_URL.replace(/\/+$/, "")\<close>\<close>

definition strip_trailing_slashes :: "string \<Rightarrow> string" where
  "strip_trailing_slashes u = rev (dropWhile (\<lambda>c. c = CHR ''/'') (rev u))"

definition API :: string where
  "API = strip_trailing_slashes API_BASE_URL"

text \<open>The em dash U+2014.\<close>

definition emdash :: string where
  "emdash = [CHR 0xE2, CHR 0x80, CHR 0x94]"

text \<open>The suffix of a balance, a space and the Russian word for "spreads" (genitive plural).\<close>

definition raskladov :: string where
  "raskladov = [CHR '' '', CHR 0xD1, CHR 0x80, CHR 0xD0, CHR 0xB0, CHR 0xD1, CHR 0x81,
     CHR 0xD0, CHR 0xBA, CHR 0xD0, CHR 0xBB, CHR 0xD0, CHR 0xB0, CHR 0xD0, CHR 0xB4,
     CHR 0xD0, CHR 0xBE, CHR 0xD0, CHR 0xB2]"

text \<open>The star U+2B50 after a price.\<close>

definition star :: string where
  "star = [CHR 0xE2, CHR 0xAD, CHR 0x90]"

section \<open>The page, the host and the outside world\<close>

text \<open>
  \<open>tg\<close> is \<^verbatim>\<open>window.Telegram?.WebApp || null\<close>: \<open>None\<close> when the script runs outside
  Telegram. Of the host object the script reads \<open>initData\<close>, \<open>initDataUnsafe\<close> and
  whether \<open>openInvoice\<close> is there.
\<close>

record webapp =
  initData :: jsval
  initDataUnsafe :: jsval
  has_openInvoice :: bool

text \<open>What the script asks of the outside world, in the order it asks.\<close>

datatype effect =
    Fetch string jsval
  | TgReady
  | TgExpand
  | TgOpenInvoice jsval
  | TgOpenTelegramLink jsval

text \<open>The two handlers \<open>createInvoice\<close> hands to the host for an opened invoice.\<close>

datatype channel = Callback | Then

text \<open>A rendered pack: the markup of its row and the key its button's click handler holds.\<close>

record pack_row =
  row_html :: string
  buy_key :: jsval

text \<open>
  The module variable \<open>sessionToken\<close>; the elements the script writes, each by the one
  attribute it writes, as the value assigned (\<open>textContent\<close> of \<open>balanceEl\<close> and of the
  three diagnostic lines, \<open>value\<close> of \<open>refLinkEl\<close>, the rows appended to \<open>packsEl\<close>,
  \<open>classList\<close> of \<open>errorBox\<close>, \<open>href\<close> of \<open>supportLink\<close>); local storage; the requests
  made so far; and the handlers that await a payment status.
\<close>

record page =
  sessionToken :: jsval
  balanceEl :: string
  refLinkEl :: string
  packsEl :: "pack_row list"
  errorBox :: "string list"
  supportLink :: string
  diagTg :: string
  diagUser :: string
  diagErr :: string
  localStorage :: "string \<rightharpoonup> string"
  effects :: "effect list"
  listeners :: "channel list"

definition emit :: "effect \<Rightarrow> page \<Rightarrow> page" where
  "emit e s = s\<lparr>effects := effects s @ [e]\<rparr>"

definition attach :: "channel \<Rightarrow> page \<Rightarrow> page" where
  "attach c s = s\<lparr>listeners := listeners s @ [c]\<rparr>"

section \<open>The functions of the script\<close>

text \<open>The user id is the host's, a number: its conversion does not raise.\<close>

definition setDiag :: "webapp option \<Rightarrow> page \<Rightarrow> page" where
  "setDiag tg s =
     (let userId = or_else
            (case tg of None \<Rightarrow> JUndef
             | Some t \<Rightarrow> opt_prop (opt_prop (initDataUnsafe t) ''user'') ''id'')
            (JStr emdash)
      in s\<lparr>diagTg := ''tg available: '' @ (if tg \<noteq> None then ''yes'' else ''no''),
            diagUser := ''user id: '' @ to_str userId\<rparr>)"

text \<open>
  \<open>setError\<close> is given a string everywhere but at line 82, where \<open>invoice_try\<close> tests
  that the message converts before it calls.
\<close>

definition setError :: "jsval \<Rightarrow> page \<Rightarrow> page" where
  "setError text s = s\<lparr>diagErr := ''error: '' @ to_str (or_else text (JStr emdash))\<rparr>"

definition showError :: "page \<Rightarrow> page" where
  "showError s = s\<lparr>errorBox := removeAll ''hidden'' (errorBox s)\<rparr>"

definition visible :: "string list \<Rightarrow> bool" where
  "visible classes = (''hidden'' \<notin> set classes)"

subsection \<open>renderPacks\<close>

definition row_of :: "jsval \<Rightarrow> pack_row" where
  "row_of p =
     \<lparr>row_html = ''<div>'' @ to_str (get_prop p ''spreads'') @ raskladov @ ''</div><div>''
                  @ to_str (get_prop p ''stars'') @ '' '' @ star @ ''</div>'',
      buy_key = get_prop p ''key''\<rparr>"

text \<open>
  The body of \<^verbatim>\<open>packs.forEach\<close>: an element that is null raises at \<^verbatim>\<open>p.spreads\<close>,
  and one whose \<open>spreads\<close> or \<open>stars\<close> does not convert raises in the template of line 37,
  before its row is appended; the rows appended so far stay.
\<close>

fun render_rows :: "exn \<Rightarrow> jsval list \<Rightarrow> pack_row list \<Rightarrow> completion \<times> pack_row list" where
  "render_rows te [] acc = (Normal, acc)"
| "render_rows te (p # ps) acc =
     (if nullish p then (Abrupt te, acc)
      else if \<not> convertible (get_prop p ''spreads'') \<or> \<not> convertible (get_prop p ''stars'')
      then (Abrupt te, acc)
      else render_rows te ps (acc @ [row_of p]))"

text \<open>
  \<open>te\<close> is the TypeError of the engine. A value that is not an array has no
  \<open>forEach\<close>: the call raises after the list has been emptied.
\<close>

definition renderPacks :: "exn \<Rightarrow> jsval \<Rightarrow> page \<Rightarrow> completion \<times> page" where
  "renderPacks te ps s =
     (let s1 = s\<lparr>packsEl := []\<rparr>
      in case ps of
           JArr xs \<Rightarrow> (case render_rows te xs [] of (c, rows) \<Rightarrow> (c, s1\<lparr>packsEl := rows\<rparr>))
         | _ \<Rightarrow> (Abrupt te, s1))"

subsection \<open>refreshBalance\<close>

text \<open>
  The outcome of \<^verbatim>\<open>fetch\<close> followed by \<^verbatim>\<open>resp.json()\<close>: either of them rejects, or
  the body parses to a value. \<open>bal_type_error\<close> is the TypeError the engine raises when the
  script reads a property of null (its message is the engine's); the records of the other
  functions have a field of the same kind.
\<close>

record balance_io =
  bal_reply :: "jsval attempt"
  bal_type_error :: exn

definition refreshBalance :: "balance_io \<Rightarrow> page \<Rightarrow> page" where
  "refreshBalance io s =
     (if \<not> truthy (sessionToken s) then s
      else
        let s1 = emit (Fetch (API @ ''/api/balance'') (JObj [(''session'', sessionToken s)])) s
        in case bal_reply io of
             Raises e \<Rightarrow> setError (JStr (''balance refresh failed: '' @ err_text e)) s1
           | Gives data \<Rightarrow>
               if nullish data
               then setError (JStr (''balance refresh failed: '' @ err_text (bal_type_error io))) s1
               else if truthy (get_prop data ''ok'')
               then (if convertible (get_prop data ''balance'')
                     then s1\<lparr>balanceEl := to_str (get_prop data ''balance'') @ raskladov\<rparr>
                     else setError (JStr (''balance refresh failed: ''
                                          @ err_text (bal_type_error io))) s1)
               else s1)"

subsection \<open>createInvoice\<close>

text \<open>
  What \<^verbatim>\<open>tg.openInvoice(link, cb)\<close> returns: a value with a \<open>then\<close> function or
  not; and what calling that \<open>then\<close> does (\<open>None\<close>: it returns, the handler is attached).
\<close>

datatype open_ret = NotThenable | Thenable "exn option"

record invoice_io =
  inv_reply :: "jsval attempt"
  open_result :: "open_ret attempt"
  link_raises :: "exn option"
  inv_type_error :: exn

text \<open>\<^verbatim>\<open>tg.openTelegramLink(link)\<close>\<close>

definition open_link :: "invoice_io \<Rightarrow> jsval \<Rightarrow> page \<Rightarrow> unit attempt \<times> page" where
  "open_link io link s =
     (let s1 = emit (TgOpenTelegramLink link) s
      in case link_raises io of Some e \<Rightarrow> (Raises e, s1) | None \<Rightarrow> (Gives (), s1))"

text \<open>
  The inner \<^verbatim>\<open>try\<close> block (lines 91 to 108). A call of \<open>openInvoice\<close> that raises is taken
  to have registered nothing.
\<close>

definition open_invoice_try :: "invoice_io \<Rightarrow> jsval \<Rightarrow> page \<Rightarrow> unit attempt \<times> page" where
  "open_invoice_try io link s =
     (let s1 = emit (TgOpenInvoice link) s
      in case open_result io of
           Raises e \<Rightarrow> (Raises e, s1)
         | Gives r \<Rightarrow>
             let s2 = attach Callback s1
             in (case r of
                   NotThenable \<Rightarrow> (Gives (), s2)
                 | Thenable None \<Rightarrow> (Gives (), attach Then s2)
                 | Thenable (Some e) \<Rightarrow> (Raises e, s2)))"

text \<open>The outer \<^verbatim>\<open>try\<close> block (lines 75 to 113), after the request has been sent.\<close>

definition invoice_try :: "webapp option \<Rightarrow> invoice_io \<Rightarrow> page \<Rightarrow> unit attempt \<times> page" where
  "invoice_try tg io s =
     (case inv_reply io of
        Raises e \<Rightarrow> (Raises e, s)
      | Gives data \<Rightarrow>
          if nullish data then (Raises (inv_type_error io), s)
          else if \<not> truthy (get_prop data ''ok'') \<or> \<not> truthy (get_prop data ''invoice_link'')
          then (if convertible (or_else (get_prop data ''message'') (JStr ''invoice failed''))
                then (Gives (),
                      showError
                        (setError (or_else (get_prop data ''message'') (JStr ''invoice failed'')) s))
                else (Raises (inv_type_error io), s))
          else
            (case tg of
               None \<Rightarrow> (Raises (inv_type_error io), s)
             | Some t \<Rightarrow>
                 if \<not> has_openInvoice t then open_link io (get_prop data ''invoice_link'') s
                 else
                   (case open_invoice_try io (get_prop data ''invoice_link'') s of
                      (Gives u, s1) \<Rightarrow> (Gives (), s1)
                    | (Raises e, s1) \<Rightarrow>
                        open_link io (get_prop data ''invoice_link'')
                          (showError
                            (setError (JStr (''openInvoice failed: '' @ err_text e)) s1)))))"

definition createInvoice :: "webapp option \<Rightarrow> invoice_io \<Rightarrow> jsval \<Rightarrow> page \<Rightarrow> page" where
  "createInvoice tg io packKey s =
     (if \<not> truthy (sessionToken s) then showError (setError (JStr ''no session'') s)
      else
        let s1 = emit (Fetch (API @ ''/api/invoice'')
                         (JObj [(''session'', sessionToken s), (''pack_key'', packKey)])) s
        in case invoice_try tg io s1 of
             (Gives u, s2) \<Rightarrow> s2
           | (Raises e, s2) \<Rightarrow>
               showError (setError (JStr (''invoice error: '' @ err_text e)) s2))"

text \<open>
  The status handler: the callback given to \<open>openInvoice\<close> (lines 91 to 98) and the function
  given to \<open>then\<close> (lines 100 to 107) have the same body.
\<close>

definition onStatus :: "jsval \<Rightarrow> balance_io \<Rightarrow> page \<Rightarrow> page" where
  "onStatus status io s =
     (if status = JStr ''paid'' then refreshBalance io s
      else if status = JStr ''cancelled'' \<or> status = JStr ''failed''
      then showError (setError (JStr (''invoice '' @ to_str status)) s)
      else s)"

subsection \<open>auth\<close>

datatype lifecycle = ReadyRaises exn | ExpandRaises exn | Initialised

datatype body = TextFails exn | ParseFails string exn | Parsed jsval

record response =
  resp_status :: jsval
  resp_body :: body

record auth_io =
  tg_lifecycle :: lifecycle
  auth_fetch :: "response attempt"
  setItem_raises :: bool
  auth_type_error :: exn

text \<open>\<^verbatim>\<open>try { tg.ready(); tg.expand(); } catch (e) { setError(...) }\<close>\<close>

definition tg_init :: "lifecycle \<Rightarrow> page \<Rightarrow> page" where
  "tg_init lc s =
     (case lc of
        ReadyRaises e \<Rightarrow> setError (JStr (''tg init failed: '' @ err_text e)) (emit TgReady s)
      | ExpandRaises e \<Rightarrow>
          setError (JStr (''tg init failed: '' @ err_text e)) (emit TgExpand (emit TgReady s))
      | Initialised \<Rightarrow> emit TgExpand (emit TgReady s))"

text \<open>
  The handler of the second \<^verbatim>\<open>try\<close> (lines 152 to 158). \<open>st\<close> is the status of the
  response, a number. The preview is exact for a body of ASCII characters: \<open>slice\<close> counts
  UTF-16 units, \<open>take\<close> the characters of the list.
\<close>

definition bad_json :: "jsval \<Rightarrow> string \<Rightarrow> exn \<Rightarrow> page \<Rightarrow> page" where
  "bad_json st rawText e s =
     (let status_text = to_str (or_else st (JStr ''unknown''));
          preview = (if rawText \<noteq> [] then take 200 rawText else ''empty'')
      in showError
           (setError (JStr (''bad json (status '' @ status_text @ ''): '' @ err_text e
                            @ ''; preview: '' @ preview)) s))"

text \<open>
  Lines 160 to 165. The two templates stand outside any \<^verbatim>\<open>try\<close>: a message or an error
  code that does not convert ends \<open>auth\<close> with the TypeError, before \<open>setError\<close>.
\<close>

definition auth_rejected :: "exn \<Rightarrow> jsval \<Rightarrow> page \<Rightarrow> completion \<times> page" where
  "auth_rejected te data s =
     (if truthy (get_prop data ''message'') \<and> \<not> convertible (get_prop data ''message'')
      then (Abrupt te, s)
      else
        let msg = (if truthy (get_prop data ''message'')
                   then '' ('' @ to_str (get_prop data ''message'') @ '')'' else [])
        in if \<not> convertible (or_else (get_prop data ''error'') (JStr ''auth_failed''))
           then (Abrupt te, s)
           else (Normal,
                 showError
                   (setError (JStr (to_str (or_else (get_prop data ''error'') (JStr ''auth_failed''))
                                    @ msg)) s)))"

text \<open>
  Lines 167 to 180. \<open>setItem\<close> stores the string conversion of its argument; when it raises,
  for that conversion or for a reason of the storage (\<open>raises\<close>), line 171 ignores it. The
  conversions of lines 175, 176 and 179 stand outside any \<^verbatim>\<open>try\<close>: the first that raises
  ends \<open>auth\<close>, with what was written before it in place.
\<close>

definition store_session :: "bool \<Rightarrow> page \<Rightarrow> page" where
  "store_session raises s =
     (if truthy (sessionToken s)
      then (if raises \<or> \<not> convertible (sessionToken s) then s
            else s\<lparr>localStorage := (localStorage s)(''astra_session'' \<mapsto> to_str (sessionToken s))\<rparr>)
      else s)"

definition auth_accepted :: "auth_io \<Rightarrow> jsval \<Rightarrow> page \<Rightarrow> completion \<times> page" where
  "auth_accepted io data s =
     (let s1 = s\<lparr>sessionToken := or_else (get_prop data ''session'') JNull\<rparr>;
          s2 = store_session (setItem_raises io) s1;
          s3 = s2\<lparr>balanceEl := to_str (get_prop data ''balance'') @ raskladov\<rparr>;
          s4 = s3\<lparr>refLinkEl := to_str (or_else (get_prop data ''ref_link'') (JStr emdash))\<rparr>
      in if \<not> convertible (get_prop data ''balance'') then (Abrupt (auth_type_error io), s2)
         else if \<not> convertible (or_else (get_prop data ''ref_link'') (JStr emdash))
         then (Abrupt (auth_type_error io), s3)
         else
           (case renderPacks (auth_type_error io)
                   (or_else (get_prop data ''packages'') (JArr [])) s4 of
              (Abrupt e, s5) \<Rightarrow> (Abrupt e, s5)
            | (Normal, s5) \<Rightarrow>
                if \<not> truthy (get_prop data ''support_link'') then (Normal, s5)
                else if \<not> convertible (get_prop data ''support_link'')
                then (Abrupt (auth_type_error io), s5)
                else (Normal, s5\<lparr>supportLink := to_str (get_prop data ''support_link'')\<rparr>)))"

definition auth :: "webapp option \<Rightarrow> auth_io \<Rightarrow> page \<Rightarrow> completion \<times> page" where
  "auth tg io s0 =
     (let s = setDiag tg s0
      in case tg of
           None \<Rightarrow> (Normal, showError s)
         | Some t \<Rightarrow>
             if \<not> truthy (initData t) then (Normal, showError s)
             else
               let s1 = tg_init (tg_lifecycle io) s;
                   s2 = emit (Fetch (API_BASE_URL @ ''/api/auth'')
                                (JObj [(''initData'', initData t)])) s1
               in (case auth_fetch io of
                    Raises e \<Rightarrow>
                      (Normal, showError (setError (JStr (''fetch auth failed: '' @ err_text e)) s2))
                  | Gives resp \<Rightarrow>
                      (case resp_body resp of
                         TextFails e \<Rightarrow> (Normal, bad_json (resp_status resp) [] e s2)
                       | ParseFails rawText e \<Rightarrow> (Normal, bad_json (resp_status resp) rawText e s2)
                       | Parsed data \<Rightarrow>
                           if nullish data then (Abrupt (auth_type_error io), s2)
                           else if \<not> truthy (get_prop data ''ok'')
                           then auth_rejected (auth_type_error io) data s2
                           else auth_accepted io data s2)))"

section \<open>Executions\<close>

text \<open>
  Loading the script evaluates line 15, \<^verbatim>\<open>let sessionToken = null\<close>, and calls \<open>auth\<close>
  (line 207). The elements and local storage are as the script finds them; nothing has been
  requested and no handler is attached yet.
\<close>

definition initial :: "page \<Rightarrow> page" where
  "initial html = html\<lparr>sessionToken := JNull, effects := [], listeners := []\<rparr>"

definition startup :: "webapp option \<Rightarrow> auth_io \<Rightarrow> page \<Rightarrow> completion \<times> page" where
  "startup tg io html = auth tg io (initial html)"

text \<open>
  After startup the page reacts to events: a click on the button of the \<open>i\<close>-th rendered
  pack (line 41: \<^verbatim>\<open>if (tg) createInvoice(p.key)\<close>), and the host notifying an attached
  handler of a payment status (the handlers have no guard against a second call, so a
  notification leaves them attached). Each function runs to its end
  with the outcomes of its requests given: after its first \<^verbatim>\<open>await\<close> none of them reads
  \<open>sessionToken\<close> again. The other listeners of the script (the toggle of the pack list, the
  copy button, the support link) neither read nor write what is modelled here and are left out.
\<close>

datatype event = PackClick nat invoice_io | Notify channel jsval balance_io

definition click :: "webapp option \<Rightarrow> nat \<Rightarrow> invoice_io \<Rightarrow> page \<Rightarrow> page" where
  "click tg i io s =
     (if i < length (packsEl s) \<and> tg \<noteq> None then createInvoice tg io (buy_key (packsEl s ! i)) s
      else s)"

definition deliver :: "channel \<Rightarrow> jsval \<Rightarrow> balance_io \<Rightarrow> page \<Rightarrow> page" where
  "deliver c st io s =
     (if c \<in> set (listeners s) then onStatus st io s else s)"

fun step :: "webapp option \<Rightarrow> event \<Rightarrow> page \<Rightarrow> page" where
  "step tg (PackClick i io) s = click tg i io s"
| "step tg (Notify c st io) s = deliver c st io s"

fun run :: "webapp option \<Rightarrow> event list \<Rightarrow> page \<Rightarrow> page" where
  "run tg [] s = s"
| "run tg (e # es) s = run tg es (step tg e s)"

text \<open>The requests to the balance endpoint made so far: one for each call of
  \<open>refreshBalance\<close> that found a session.\<close>

fun is_balance_fetch :: "effect \<Rightarrow> bool" where
  "is_balance_fetch (Fetch url b) = (url = API @ ''/api/balance'')"
| "is_balance_fetch e = False"

definition balance_calls :: "page \<Rightarrow> nat" where
  "balance_calls s = length (filter is_balance_fetch (effects s))"

section \<open>Where a run of auth gets to\<close>

text \<open>
  The reply with which \<open>auth\<close> reaches line 160: the host is there with init data, the request
  was answered, and the body parsed to a value that is not null.
\<close>

definition auth_reply :: "webapp option \<Rightarrow> auth_io \<Rightarrow> jsval option" where
  "auth_reply tg io =
     (case tg of
        None \<Rightarrow> None
      | Some t \<Rightarrow>
          if \<not> truthy (initData t) then None
          else (case auth_fetch io of
                  Raises e \<Rightarrow> None
                | Gives resp \<Rightarrow>
                    (case resp_body resp of
                       Parsed data \<Rightarrow> if nullish data then None else Some data
                     | _ \<Rightarrow> None)))"

text \<open>What \<open>renderPacks\<close> leaves in the list of packs.\<close>

definition rows_rendered :: "exn \<Rightarrow> jsval \<Rightarrow> pack_row list" where
  "rows_rendered te ps = (case ps of JArr xs \<Rightarrow> snd (render_rows te xs []) | _ \<Rightarrow> [])"

section \<open>Concrete pages, hosts and outcomes\<close>

text \<open>A page as the markup delivers it, with the error panel hidden and nothing stored.\<close>

definition page0 :: page where
  "page0 = \<lparr>sessionToken = JNull, balanceEl = ''0'' @ raskladov, refLinkEl = emdash,
     packsEl = [], errorBox = [''error'', ''hidden''], supportLink = ''#'', diagTg = [],
     diagUser = [], diagErr = [], localStorage = Map.empty, effects = [], listeners = []\<rparr>"

text \<open>The same page once a session has been obtained.\<close>

definition page_tok :: page where
  "page_tok = page0\<lparr>sessionToken := JStr ''tok''\<rparr>"

definition exn0 :: exn where
  "exn0 = \<lparr>exn_message = JStr ''Failed to fetch'', exn_text = ''TypeError: Failed to fetch''\<rparr>"

definition tg0 :: webapp where
  "tg0 = \<lparr>initData = JStr ''query_id=1'',
           initDataUnsafe = JObj [(''user'', JObj [(''id'', JNum True ''42'')])],
           has_openInvoice = True\<rparr>"

definition bal_io0 :: balance_io where
  "bal_io0 = \<lparr>bal_reply = Gives (JObj [(''ok'', JBool True), (''balance'', JNum True ''7'')]),
     bal_type_error = exn0\<rparr>"

definition inv_io0 :: invoice_io where
  "inv_io0 = \<lparr>inv_reply = Gives (JObj [(''ok'', JBool True),
                                        (''invoice_link'', JStr ''https://t.me/$inv'')]),
     open_result = Gives (Thenable None), link_raises = None, inv_type_error = exn0\<rparr>"

definition auth_io_rejected :: auth_io where
  "auth_io_rejected = \<lparr>tg_lifecycle = Initialised,
     auth_fetch = Gives \<lparr>resp_status = JNum True ''403'',
        resp_body = Parsed (JObj [(''ok'', JBool False), (''error'', JStr ''bad_init_data''),
                                  (''message'', JStr ''signature mismatch'')])\<rparr>,
     setItem_raises = False, auth_type_error = exn0\<rparr>"

text \<open>Further outcomes: a balance request that is refused, one that never arrives.\<close>

definition bal_io_refused :: balance_io where
  "bal_io_refused = \<lparr>bal_reply = Gives (JObj [(''ok'', JBool False)]), bal_type_error = exn0\<rparr>"

definition bal_io_offline :: balance_io where
  "bal_io_offline = \<lparr>bal_reply = Raises exn0, bal_type_error = exn0\<rparr>"

text \<open>The reply with which \<open>refreshBalance\<close> takes the branch of line 60.\<close>

fun balance_updates :: "jsval attempt \<Rightarrow> bool" where
  "balance_updates (Gives data) =
     (\<not> nullish data \<and> truthy (get_prop data ''ok'') \<and> convertible (get_prop data ''balance''))"
| "balance_updates (Raises e) = False"

text \<open>
  A page whose storage holds a session of an earlier visit, an auth request that never
  arrives, and one that is accepted.
\<close>

definition page_stored :: page where
  "page_stored = page0\<lparr>localStorage := [''astra_session'' \<mapsto> ''abc'']\<rparr>"

definition auth_io_offline :: auth_io where
  "auth_io_offline = \<lparr>tg_lifecycle = Initialised, auth_fetch = Raises exn0,
     setItem_raises = False, auth_type_error = exn0\<rparr>"

definition auth_io_accepted :: auth_io where
  "auth_io_accepted = \<lparr>tg_lifecycle = Initialised,
     auth_fetch = Gives \<lparr>resp_status = JNum True ''200'',
        resp_body = Parsed (JObj [(''ok'', JBool True), (''session'', JStr ''s1''),
           (''balance'', JNum True ''3''), (''ref_link'', JStr ''https://t.me/bot?start=r1''),
           (''packages'', JArr [JObj [(''key'', JStr ''pack_10''), (''spreads'', JNum True ''10''),
                                      (''stars'', JNum True ''50'')]])])\<rparr>,
     setItem_raises = False, auth_type_error = exn0\<rparr>"

text \<open>An auth reply that is accepted but carries an empty session.\<close>

definition auth_io_nosession :: auth_io where
  "auth_io_nosession = \<lparr>tg_lifecycle = Initialised,
     auth_fetch = Gives \<lparr>resp_status = JNum True ''200'',
        resp_body = Parsed (JObj [(''ok'', JBool True), (''session'', JStr []),
           (''balance'', JNum True ''5''),
           (''packages'', JArr [JObj [(''key'', JStr ''pack_10''), (''spreads'', JNum True ''10''),
                                      (''stars'', JNum True ''50'')]])])\<rparr>,
     setItem_raises = False, auth_type_error = exn0\<rparr>"

section \<open>Predicates on session values\<close>

text \<open>A session field as the backend documents it: a string, or null, or not there.\<close>

fun str_or_absent :: "jsval \<Rightarrow> bool" where
  "str_or_absent JUndef = True"
| "str_or_absent JNull = True"
| "str_or_absent (JStr t) = True"
| "str_or_absent v = False"

text \<open>The values the claims allow for \<open>sessionToken\<close>.\<close>

fun null_or_nonempty_str :: "jsval \<Rightarrow> bool" where
  "null_or_nonempty_str JNull = True"
| "null_or_nonempty_str (JStr t) = (t \<noteq> [])"
| "null_or_nonempty_str v = False"

text \<open>A request that carries a session carries one that is not the empty string.\<close>

fun credential_ok :: "effect \<Rightarrow> bool" where
  "credential_ok (Fetch url b) = (get_prop b ''session'' \<noteq> JStr [])"
| "credential_ok e = True"

text \<open>A refused auth whose error code has an own entry \<open>toString\<close>.\<close>

definition auth_io_unconvertible :: auth_io where
  "auth_io_unconvertible = \<lparr>tg_lifecycle = Initialised,
     auth_fetch = Gives \<lparr>resp_status = JNum True ''403'',
        resp_body = Parsed (JObj [(''ok'', JBool False),
                                  (''error'', JObj [(''toString'', JNum False ''0'')])])\<rparr>,
     setItem_raises = False, auth_type_error = exn0\<rparr>"

text \<open>An accepted auth whose session is a number.\<close>

definition auth_io_numeric :: auth_io where
  "auth_io_numeric = \<lparr>tg_lifecycle = Initialised,
     auth_fetch = Gives \<lparr>resp_status = JNum True ''200'',
        resp_body = Parsed (JObj [(''ok'', JBool True), (''session'', JNum True ''123''),
                                  (''balance'', JNum True ''3'')])\<rparr>,
     setItem_raises = False, auth_type_error = exn0\<rparr>"


section \<open>Properties\<close>

subsection \<open>What auth writes\<close>

lemma renderPacks_page: "snd (renderPacks te ps s) = s\<lparr>packsEl := rows_rendered te ps\<rparr>"
  by (cases ps) (simp_all add: renderPacks_def rows_rendered_def split: prod.splits)

lemma renderPacks_result:
  "renderPacks te ps s = (c, s') \<Longrightarrow> s' = s\<lparr>packsEl := rows_rendered te ps\<rparr>"
  using renderPacks_page [of te ps s] by simp


lemma auth_accepted_fields:
  "sessionToken (snd (auth_accepted io data s)) = or_else (get_prop data ''session'') JNull"
  "localStorage (snd (auth_accepted io data s)) =
     localStorage (store_session (setItem_raises io)
                    (s\<lparr>sessionToken := or_else (get_prop data ''session'') JNull\<rparr>))"
  "effects (snd (auth_accepted io data s)) = effects s"
  "listeners (snd (auth_accepted io data s)) = listeners s"
  "errorBox (snd (auth_accepted io data s)) = errorBox s"
  "diagErr (snd (auth_accepted io data s)) = diagErr s"
  by (auto simp add: auth_accepted_def Let_def store_session_def
      split: prod.splits completion.splits dest!: renderPacks_result)

lemma auth_rejected_fields:
  "sessionToken (snd (auth_rejected te data s)) = sessionToken s"
  "localStorage (snd (auth_rejected te data s)) = localStorage s"
  "balanceEl (snd (auth_rejected te data s)) = balanceEl s"
  "refLinkEl (snd (auth_rejected te data s)) = refLinkEl s"
  "packsEl (snd (auth_rejected te data s)) = packsEl s"
  "effects (snd (auth_rejected te data s)) = effects s"
  "listeners (snd (auth_rejected te data s)) = listeners s"
  by (simp_all add: auth_rejected_def Let_def showError_def setError_def)

lemma tg_init_fields:
  "sessionToken (tg_init lc s) = sessionToken s"
  "localStorage (tg_init lc s) = localStorage s"
  "balanceEl (tg_init lc s) = balanceEl s"
  "refLinkEl (tg_init lc s) = refLinkEl s"
  "packsEl (tg_init lc s) = packsEl s"
  "errorBox (tg_init lc s) = errorBox s"
  "listeners (tg_init lc s) = listeners s"
  by (simp_all add: tg_init_def setError_def emit_def split: lifecycle.splits)

lemma auth_reply_host: "auth_reply tg io = Some data \<Longrightarrow> \<exists>t. tg = Some t"
  by (cases tg) (simp_all add: auth_reply_def)

lemma auth_reaches_reply:
  assumes "tg = Some t" "auth_reply tg io = Some data"
  shows "auth tg io s =
     (if \<not> truthy (get_prop data ''ok'')
      then auth_rejected (auth_type_error io) data
              (emit (Fetch (API_BASE_URL @ ''/api/auth'') (JObj [(''initData'', initData t)]))
                 (tg_init (tg_lifecycle io) (setDiag tg s)))
      else auth_accepted io data
              (emit (Fetch (API_BASE_URL @ ''/api/auth'') (JObj [(''initData'', initData t)]))
                 (tg_init (tg_lifecycle io) (setDiag tg s))))"
  using assms
  by (auto simp add: auth_def auth_reply_def Let_def
      split: option.splits attempt.splits body.splits if_splits)

lemma auth_sessionToken:
  "sessionToken (snd (auth tg io s)) =
     (case auth_reply tg io of
        None \<Rightarrow> sessionToken s
      | Some data \<Rightarrow> if truthy (get_prop data ''ok'')
                     then or_else (get_prop data ''session'') JNull else sessionToken s)"
  by (auto simp add: auth_def auth_reply_def Let_def auth_accepted_fields auth_rejected_fields
      bad_json_def tg_init_def showError_def setError_def setDiag_def emit_def
      split: option.splits attempt.splits body.splits lifecycle.splits)

lemma auth_effects:
  "effects (snd (auth tg io s)) =
     (case tg of
        None \<Rightarrow> effects s
      | Some t \<Rightarrow>
          if \<not> truthy (initData t) then effects s
          else effects (tg_init (tg_lifecycle io) s)
                 @ [Fetch (API_BASE_URL @ ''/api/auth'') (JObj [(''initData'', initData t)])])"
  by (auto simp add: auth_def Let_def auth_accepted_fields auth_rejected_fields bad_json_def
      tg_init_def showError_def setError_def setDiag_def emit_def
      split: option.splits attempt.splits body.splits lifecycle.splits)

lemma auth_localStorage:
  assumes "auth_reply tg io = Some data" and "truthy (get_prop data ''ok'')"
  shows "localStorage (snd (auth tg io s)) =
     (if truthy (get_prop data ''session'') \<and> convertible (get_prop data ''session'')
         \<and> \<not> setItem_raises io
      then (localStorage s)(''astra_session'' \<mapsto> to_str (get_prop data ''session''))
      else localStorage s)"
proof -
  from assms(1) obtain t where t: "tg = Some t" using auth_reply_host by blast
  show ?thesis
    using assms(2)
    by (simp add: auth_reaches_reply [OF t assms(1)] auth_accepted_fields store_session_def
        or_else_def emit_def tg_init_fields setDiag_def)
qed

subsection \<open>createInvoice without a session\<close>

text \<open>
  C1. A call of \<open>createInvoice\<close> while \<open>sessionToken\<close> is null requests nothing: the list of
  effects is as before. The error panel is visible afterwards, \<open>setError\<close> has been given the
  fixed message, so that the diagnostic line reads "error: no session", and the session token
  and the displayed balance are as before.
\<close>

theorem createInvoice_no_session:
  assumes "sessionToken s = JNull"
  shows "effects (createInvoice tg io packKey s) = effects s
       \<and> visible (errorBox (createInvoice tg io packKey s))
       \<and> diagErr (createInvoice tg io packKey s) = ''error: no session''
       \<and> sessionToken (createInvoice tg io packKey s) = sessionToken s
       \<and> balanceEl (createInvoice tg io packKey s) = balanceEl s"
  using assms
  by (simp add: createInvoice_def showError_def setError_def visible_def or_else_def)

theorem createInvoice_no_session_witness:
  "sessionToken page0 = JNull
   \<and> effects (createInvoice (Some tg0) inv_io0 (JStr ''pack_10'') page0) = []
   \<and> errorBox (createInvoice (Some tg0) inv_io0 (JStr ''pack_10'') page0) = [''error'']
   \<and> diagErr (createInvoice (Some tg0) inv_io0 (JStr ''pack_10'') page0) = ''error: no session''"
  using createInvoice_no_session [of page0 "Some tg0" inv_io0 "JStr ''pack_10''"]
  by (simp add: page0_def createInvoice_def showError_def setError_def or_else_def)

subsection \<open>Startup outside the host\<close>

text \<open>
  C8. When the Telegram WebApp object is missing, or its init data is absent or empty, \<open>auth\<close>
  completes normally (it throws nothing), requests nothing, and leaves the error panel visible.
  The function \<open>auth\<close> of src/miniapp/app.js is the same text; the two files differ in the
  click handler that \<open>renderPacks\<close> installs, which \<open>auth\<close> does not run.
\<close>

theorem auth_without_host:
  assumes "tg = None \<or> (\<exists>t. tg = Some t \<and> \<not> truthy (initData t))"
  shows "fst (auth tg io s) = Normal
       \<and> effects (snd (auth tg io s)) = effects s
       \<and> visible (errorBox (snd (auth tg io s)))"
  using assms by (auto simp add: auth_def Let_def showError_def setDiag_def visible_def)

theorem auth_without_host_witness:
  "fst (auth None auth_io_rejected page0) = Normal
 \<and> effects (snd (auth None auth_io_rejected page0)) = []
 \<and> errorBox (snd (auth None auth_io_rejected page0)) = [''error'']
 \<and> fst (auth (Some (tg0\<lparr>initData := JStr []\<rparr>)) auth_io_rejected page0) = Normal
 \<and> effects (snd (auth (Some (tg0\<lparr>initData := JStr []\<rparr>)) auth_io_rejected page0)) = []
 \<and> errorBox (snd (auth (Some (tg0\<lparr>initData := JStr []\<rparr>)) auth_io_rejected page0))
     = [''error'']"
  using auth_without_host [of None auth_io_rejected page0]
    auth_without_host [of "Some (tg0\<lparr>initData := JStr []\<rparr>)" auth_io_rejected page0]
  by (simp add: page0_def tg0_def auth_def Let_def showError_def setDiag_def)

subsection \<open>A failed balance refresh\<close>

text \<open>
  C4, as the claim states it, fails on a refused request: with a session present and the reply
  \<open>{ok: false}\<close>, \<open>refreshBalance\<close> leaves the diagnostic line empty and the error panel
  hidden.
\<close>

theorem refreshBalance_refusal_silent:
  "truthy (sessionToken page_tok)
   \<and> \<not> balance_updates (bal_reply bal_io_refused)
   \<and> diagErr (refreshBalance bal_io_refused page_tok) = []
   \<and> errorBox (refreshBalance bal_io_refused page_tok) = [''error'', ''hidden'']"
  by (simp add: page_tok_def page0_def bal_io_refused_def refreshBalance_def emit_def)

text \<open>
  C4, amended. For a call of \<open>refreshBalance\<close> with a session present: when the request or
  the parsing of its body fails (or the body is null), the diagnostic line reads
  "error: balance refresh failed: " followed by the reason; when the reply has a false \<open>ok\<close>,
  nothing but the request happens and no diagnostic is written. In every outcome that does not
  update the balance, the displayed balance, the session token and the error panel are as
  before, and a later call of \<open>refreshBalance\<close> sends its request as usual.
\<close>

theorem refreshBalance_failures:
  assumes "truthy (sessionToken s)"
  shows "(\<forall>e. bal_reply io = Raises e \<longrightarrow>
            diagErr (refreshBalance io s) = ''error: balance refresh failed: '' @ err_text e)
       \<and> (\<forall>data. bal_reply io = Gives data \<and> nullish data \<longrightarrow>
            diagErr (refreshBalance io s) =
              ''error: balance refresh failed: '' @ err_text (bal_type_error io))
       \<and> (\<forall>data. bal_reply io = Gives data \<and> \<not> nullish data
              \<and> \<not> truthy (get_prop data ''ok'') \<longrightarrow>
            refreshBalance io s =
              emit (Fetch (API @ ''/api/balance'') (JObj [(''session'', sessionToken s)])) s)
       \<and> (\<not> balance_updates (bal_reply io) \<longrightarrow>
            balanceEl (refreshBalance io s) = balanceEl s
          \<and> sessionToken (refreshBalance io s) = sessionToken s
          \<and> errorBox (refreshBalance io s) = errorBox s
          \<and> balance_calls (refreshBalance io' (refreshBalance io s)) = balance_calls s + 2)"
  using assms
  by (cases "bal_reply io")
     (auto simp add: refreshBalance_def emit_def setError_def or_else_def Let_def balance_calls_def
       split: attempt.splits)

theorem refreshBalance_failures_witness:
  "diagErr (refreshBalance bal_io_offline page_tok) = ''error: balance refresh failed: Failed to fetch''
   \<and> refreshBalance bal_io_refused page_tok =
       page_tok\<lparr>effects := [Fetch ''https://api.astrabotai.online/api/balance''
                               (JObj [(''session'', JStr ''tok'')])]\<rparr>
   \<and> balanceEl (refreshBalance bal_io_offline page_tok) = ''0'' @ raskladov
   \<and> errorBox (refreshBalance bal_io_offline page_tok) = [''error'', ''hidden'']
   \<and> balance_calls (refreshBalance bal_io0 (refreshBalance bal_io_offline page_tok)) = 2"
  using refreshBalance_failures [of page_tok bal_io_offline bal_io0]
    refreshBalance_failures [of page_tok bal_io_refused bal_io0]
  by (simp add: page_tok_def page0_def bal_io_offline_def bal_io_refused_def exn0_def
      err_text_def emit_def API_def API_BASE_URL_def strip_trailing_slashes_def balance_calls_def)

subsection \<open>A paid invoice\<close>

lemma paid_notification:
  assumes "c \<in> set (listeners s)" and "truthy (sessionToken s)"
  shows "balance_calls (deliver c (JStr ''paid'') io s) = balance_calls s + 1"
    and "sessionToken (deliver c (JStr ''paid'') io s) = sessionToken s"
    and "listeners (deliver c (JStr ''paid'') io s) = listeners s"
  using assms
  by (auto simp add: deliver_def onStatus_def refreshBalance_def emit_def setError_def Let_def
      balance_calls_def split: attempt.splits)

lemma invoice_opened:
  assumes "truthy (sessionToken s)"
    and "inv_reply io = Gives data" and "\<not> nullish data"
    and "truthy (get_prop data ''ok'')" and "truthy (get_prop data ''invoice_link'')"
    and "tg = Some t" and "has_openInvoice t"
    and "open_result io = Gives r" and "r = NotThenable \<or> r = Thenable None"
  shows "createInvoice tg io packKey s =
           s\<lparr>effects := effects s @
                 [Fetch (API @ ''/api/invoice'')
                    (JObj [(''session'', sessionToken s), (''pack_key'', packKey)]),
                  TgOpenInvoice (get_prop data ''invoice_link'')],
             listeners := listeners s @ (if r = NotThenable then [Callback] else [Callback, Then])\<rparr>"
  using assms
  by (auto simp add: createInvoice_def invoice_try_def open_invoice_try_def emit_def attach_def
      Let_def)

text \<open>
  C2, as the claim states it, fails when the host reports "paid" both through the callback and
  through the promise it returned: each of the two handlers calls \<open>refreshBalance\<close>, and two
  requests go to the balance endpoint.
\<close>

theorem paid_twice_refreshes_twice:
  "balance_calls
     (deliver Then (JStr ''paid'') bal_io0
       (deliver Callback (JStr ''paid'') bal_io0
         (createInvoice (Some tg0) inv_io0 (JStr ''pack_10'') page_tok))) = 2"
  by (simp add: page_tok_def page0_def tg0_def inv_io0_def bal_io0_def createInvoice_def
      invoice_try_def open_invoice_try_def emit_def attach_def Let_def deliver_def onStatus_def
      refreshBalance_def balance_calls_def API_def API_BASE_URL_def strip_trailing_slashes_def)

text \<open>
  C2, amended. When \<open>createInvoice\<close> has opened an invoice through \<open>openInvoice\<close>, it has
  attached the callback, and the \<open>then\<close> handler as well when the host returned a promise;
  it has not refreshed the balance itself. Each notification of "paid" to an attached handler
  issues exactly one balance refresh: one when the status comes through the callback alone or
  through the promise alone, two when it comes through both.
\<close>

theorem paid_refresh_per_notification:
  assumes "truthy (sessionToken s)"
    and "inv_reply io = Gives data" and "\<not> nullish data"
    and "truthy (get_prop data ''ok'')" and "truthy (get_prop data ''invoice_link'')"
    and "tg = Some t" and "has_openInvoice t"
    and "open_result io = Gives r" and "r = NotThenable \<or> r = Thenable None"
  shows "balance_calls (createInvoice tg io packKey s) = balance_calls s
       \<and> listeners (createInvoice tg io packKey s) =
           listeners s @ (if r = NotThenable then [Callback] else [Callback, Then])
       \<and> balance_calls (deliver Callback (JStr ''paid'') b1 (createInvoice tg io packKey s))
           = balance_calls s + 1
       \<and> (r = Thenable None \<longrightarrow>
            balance_calls (deliver Then (JStr ''paid'') b1 (createInvoice tg io packKey s))
              = balance_calls s + 1
          \<and> balance_calls
              (deliver Then (JStr ''paid'') b2
                (deliver Callback (JStr ''paid'') b1 (createInvoice tg io packKey s)))
              = balance_calls s + 2)"
proof -
  let ?s' = "createInvoice tg io packKey s"
  note eq = invoice_opened [OF assms, of packKey]
  have tok: "truthy (sessionToken ?s')" using assms(1) by (simp add: eq)
  have calls: "balance_calls ?s' = balance_calls s"
    by (simp add: eq balance_calls_def API_def API_BASE_URL_def strip_trailing_slashes_def)
  have ls: "listeners ?s' = listeners s @ (if r = NotThenable then [Callback] else [Callback, Then])"
    by (simp add: eq)
  have cb: "Callback \<in> set (listeners ?s')" by (simp add: ls)
  have one: "balance_calls (deliver Callback (JStr ''paid'') b1 ?s') = balance_calls s + 1"
    using paid_notification(1) [OF cb tok] calls by simp
  have both: "balance_calls (deliver Then (JStr ''paid'') b1 ?s') = balance_calls s + 1
          \<and> balance_calls (deliver Then (JStr ''paid'') b2 (deliver Callback (JStr ''paid'') b1 ?s'))
              = balance_calls s + 2" if th: "r = Thenable None"
  proof -
    have t1: "Then \<in> set (listeners ?s')" using th by (simp add: ls)
    have t2: "Then \<in> set (listeners (deliver Callback (JStr ''paid'') b1 ?s'))"
      using t1 by (simp add: paid_notification(3) [OF cb tok])
    have tok2: "truthy (sessionToken (deliver Callback (JStr ''paid'') b1 ?s'))"
      using tok by (simp add: paid_notification(2) [OF cb tok])
    show ?thesis
      using paid_notification(1) [OF t1 tok] paid_notification(1) [OF t2 tok2] calls one
      by simp
  qed
  show ?thesis using calls ls one both by blast
qed

theorem paid_refresh_per_notification_witness:
  "balance_calls (deliver Callback (JStr ''paid'') bal_io0
       (createInvoice (Some tg0) (inv_io0\<lparr>open_result := Gives NotThenable\<rparr>) (JStr ''pack_10'') page_tok)) = 1
   \<and> listeners (createInvoice (Some tg0) (inv_io0\<lparr>open_result := Gives NotThenable\<rparr>) (JStr ''pack_10'') page_tok) = [Callback]
   \<and> balance_calls (deliver Then (JStr ''paid'') bal_io0
       (createInvoice (Some tg0) inv_io0 (JStr ''pack_10'') page_tok)) = 1
   \<and> listeners (createInvoice (Some tg0) inv_io0 (JStr ''pack_10'') page_tok) = [Callback, Then]"
  using paid_refresh_per_notification [of page_tok "inv_io0\<lparr>open_result := Gives NotThenable\<rparr>"
      "JObj [(''ok'', JBool True), (''invoice_link'', JStr ''https://t.me/$inv'')]"
      "Some tg0" tg0 NotThenable "JStr ''pack_10''" bal_io0 bal_io0]
    paid_refresh_per_notification [of page_tok inv_io0
      "JObj [(''ok'', JBool True), (''invoice_link'', JStr ''https://t.me/$inv'')]"
      "Some tg0" tg0 "Thenable None" "JStr ''pack_10''" bal_io0 bal_io0]
  by (simp add: page_tok_def page0_def tg0_def inv_io0_def balance_calls_def)

subsection \<open>The session token along a run\<close>

lemma createInvoice_sessionToken:
  "sessionToken (createInvoice tg io k s) = sessionToken s"
  by (simp add: createInvoice_def invoice_try_def open_invoice_try_def open_link_def emit_def
      attach_def showError_def setError_def Let_def
      split: attempt.splits option.splits open_ret.splits prod.splits)

lemma refreshBalance_sessionToken:
  "sessionToken (refreshBalance io s) = sessionToken s"
  by (simp add: refreshBalance_def emit_def setError_def Let_def split: attempt.splits)

lemma step_sessionToken: "sessionToken (step tg e s) = sessionToken s"
  by (cases e)
     (simp_all add: click_def deliver_def onStatus_def createInvoice_sessionToken
       refreshBalance_sessionToken showError_def setError_def)

lemma run_sessionToken: "sessionToken (run tg evs s) = sessionToken s"
  by (induction evs arbitrary: s) (simp_all add: step_sessionToken)

lemma step_no_session:
  "\<not> truthy (sessionToken s) \<Longrightarrow> effects (step tg e s) = effects s"
  by (cases e)
     (simp_all add: click_def deliver_def onStatus_def createInvoice_def refreshBalance_def
       showError_def setError_def)

lemma run_no_session:
  "\<not> truthy (sessionToken s) \<Longrightarrow> effects (run tg evs s) = effects s"
proof (induction evs arbitrary: s)
  case Nil
  then show ?case by simp
next
  case (Cons e evs)
  have "\<not> truthy (sessionToken (step tg e s))"
    using Cons.prems by (simp add: step_sessionToken)
  then show ?case using Cons.IH Cons.prems by (simp add: step_no_session)
qed

lemma createInvoice_credential:
  assumes "list_all credential_ok (effects s)" and "sessionToken s \<noteq> JStr []"
  shows "list_all credential_ok (effects (createInvoice tg io k s))"
  using assms
  by (simp add: createInvoice_def invoice_try_def open_invoice_try_def open_link_def emit_def
      attach_def showError_def setError_def Let_def
      split: attempt.splits option.splits open_ret.splits prod.splits)

lemma refreshBalance_credential:
  assumes "list_all credential_ok (effects s)" and "sessionToken s \<noteq> JStr []"
  shows "list_all credential_ok (effects (refreshBalance io s))"
  using assms
  by (simp add: refreshBalance_def emit_def setError_def Let_def split: attempt.splits)

lemma step_credential:
  assumes "list_all credential_ok (effects s)" and "sessionToken s \<noteq> JStr []"
  shows "list_all credential_ok (effects (step tg e s))"
  using assms
  by (cases e)
     (simp_all add: click_def deliver_def onStatus_def createInvoice_credential
       refreshBalance_credential showError_def setError_def)

lemma run_credential:
  assumes "list_all credential_ok (effects s)" and "sessionToken s \<noteq> JStr []"
  shows "list_all credential_ok (effects (run tg evs s))"
  using assms
proof (induction evs arbitrary: s)
  case Nil
  then show ?case by simp
next
  case (Cons e evs)
  have "sessionToken (step tg e s) \<noteq> JStr []"
    using Cons.prems by (simp add: step_sessionToken)
  then show ?case using Cons.IH Cons.prems by (simp add: step_credential)
qed

lemma auth_credential:
  assumes "list_all credential_ok (effects s)"
  shows "list_all credential_ok (effects (snd (auth tg io s)))"
  using assms
  by (simp add: auth_effects tg_init_def emit_def setError_def
      split: option.splits lifecycle.splits)

lemma startup_sessionToken:
  "sessionToken (snd (startup tg io html)) =
     (case auth_reply tg io of
        None \<Rightarrow> JNull
      | Some data \<Rightarrow> if truthy (get_prop data ''ok'')
                     then or_else (get_prop data ''session'') JNull else JNull)"
  by (simp add: startup_def auth_sessionToken initial_def split: option.splits)

subsection \<open>The stored session\<close>

text \<open>
  C3, as the claim states it, fails: with "abc" stored under the key astra_session and an auth
  request that never arrives, the session token is null at load and null after startup, and a
  purchase attempt stops at "no session" without a request.
\<close>

theorem stored_session_ignored:
  "localStorage page_stored ''astra_session'' = Some ''abc''
   \<and> sessionToken (initial page_stored) = JNull
   \<and> sessionToken (snd (startup (Some tg0) auth_io_offline page_stored)) = JNull
   \<and> effects (createInvoice (Some tg0) inv_io0 (JStr ''pack_10'')
               (snd (startup (Some tg0) auth_io_offline page_stored)))
       = effects (snd (startup (Some tg0) auth_io_offline page_stored))
   \<and> diagErr (createInvoice (Some tg0) inv_io0 (JStr ''pack_10'')
               (snd (startup (Some tg0) auth_io_offline page_stored)))
       = ''error: no session''"
  by (simp add: page_stored_def page0_def initial_def startup_def tg0_def auth_io_offline_def
      auth_def Let_def tg_init_def emit_def setDiag_def showError_def setError_def or_else_def
      createInvoice_def)

text \<open>
  C3, amended. The script writes the session token to local storage under the key
  astra_session after a successful auth (when the token converts to a string and \<open>setItem\<close>
  does not raise), and never reads it
  back: at load the token is null, the token after startup does not depend on what is stored,
  and it is set only by an accepted auth reply of this run, to the session of that reply.
  While it is not set, no event makes the script request anything.
\<close>

theorem session_from_auth_only:
  "sessionToken (initial html) = JNull
 \<and> sessionToken (snd (startup tg io (html\<lparr>localStorage := m\<rparr>)))
      = sessionToken (snd (startup tg io html))
 \<and> (truthy (sessionToken (snd (startup tg io html))) \<longrightarrow>
      (\<exists>data. auth_reply tg io = Some data \<and> truthy (get_prop data ''ok'')
            \<and> sessionToken (snd (startup tg io html)) = get_prop data ''session''))
 \<and> (\<forall>data. auth_reply tg io = Some data \<and> truthy (get_prop data ''ok'')
          \<and> truthy (get_prop data ''session'') \<and> convertible (get_prop data ''session'')
          \<and> \<not> setItem_raises io \<longrightarrow>
      localStorage (snd (startup tg io html)) ''astra_session''
        = Some (to_str (get_prop data ''session'')))
 \<and> (\<not> truthy (sessionToken (snd (startup tg io html))) \<longrightarrow>
      effects (run tg evs (snd (startup tg io html))) = effects (snd (startup tg io html)))"
proof -
  have a: "sessionToken (initial html) = JNull" by (simp add: initial_def)
  have b: "sessionToken (snd (startup tg io (html\<lparr>localStorage := m\<rparr>)))
      = sessionToken (snd (startup tg io html))"
    by (simp add: startup_sessionToken)
  have c: "truthy (sessionToken (snd (startup tg io html))) \<longrightarrow>
      (\<exists>data. auth_reply tg io = Some data \<and> truthy (get_prop data ''ok'')
            \<and> sessionToken (snd (startup tg io html)) = get_prop data ''session'')"
    by (auto simp add: startup_sessionToken or_else_def split: option.splits if_splits)
  have d: "localStorage (snd (startup tg io html)) ''astra_session''
        = Some (to_str (get_prop data ''session''))"
    if "auth_reply tg io = Some data" "truthy (get_prop data ''ok'')"
       "truthy (get_prop data ''session'')" "convertible (get_prop data ''session'')"
       "\<not> setItem_raises io" for data
    using that by (simp add: startup_def auth_localStorage)
  have e: "\<not> truthy (sessionToken (snd (startup tg io html))) \<longrightarrow>
      effects (run tg evs (snd (startup tg io html))) = effects (snd (startup tg io html))"
    using run_no_session by blast
  show ?thesis using a b c d e by blast
qed

theorem session_from_auth_only_witness:
  "sessionToken (snd (startup (Some tg0) auth_io_accepted page_stored)) = JStr ''s1''
 \<and> localStorage (snd (startup (Some tg0) auth_io_accepted page_stored)) ''astra_session''
      = Some ''s1''
 \<and> sessionToken (snd (startup (Some tg0) auth_io_offline page_stored)) = JNull
 \<and> effects (run (Some tg0) [PackClick 0 inv_io0, Notify Callback (JStr ''paid'') bal_io0]
             (snd (startup (Some tg0) auth_io_offline page_stored)))
      = [TgReady, TgExpand,
         Fetch ''https://api.astrabotai.online/api/auth'' (JObj [(''initData'', JStr ''query_id=1'')])]"
  using session_from_auth_only [of page_stored "Some tg0" auth_io_accepted Map.empty "[]"]
    session_from_auth_only [of page_stored "Some tg0" auth_io_offline Map.empty
      "[PackClick 0 inv_io0, Notify Callback (JStr ''paid'') bal_io0]"]
  by (simp add: page_stored_def page0_def tg0_def auth_io_accepted_def auth_io_offline_def
      startup_def initial_def auth_def Let_def tg_init_def emit_def setDiag_def showError_def
      setError_def or_else_def auth_accepted_fields store_session_def API_BASE_URL_def
      auth_reply_def)

subsection \<open>The fallback to an external link\<close>

text \<open>
  C5, as the claim states it, fails when the host's \<open>openTelegramLink\<close> raises: with a
  session, a successful invoice response and no \<open>openInvoice\<close>, the outer handler (lines 114
  to 117) shows the error panel with "invoice error: " and the reason.
\<close>

theorem invoice_fallback_link_raises:
  "truthy (sessionToken page_tok)
   \<and> \<not> has_openInvoice (tg0\<lparr>has_openInvoice := False\<rparr>)
   \<and> errorBox (createInvoice (Some (tg0\<lparr>has_openInvoice := False\<rparr>))
                 (inv_io0\<lparr>link_raises := Some exn0\<rparr>) (JStr ''pack_10'') page_tok) = [''error'']
   \<and> diagErr (createInvoice (Some (tg0\<lparr>has_openInvoice := False\<rparr>))
                 (inv_io0\<lparr>link_raises := Some exn0\<rparr>) (JStr ''pack_10'') page_tok)
        = ''error: invoice error: Failed to fetch''"
  by (simp add: page_tok_def page0_def tg0_def inv_io0_def exn0_def createInvoice_def
      invoice_try_def open_link_def emit_def Let_def showError_def setError_def or_else_def
      err_text_def)

text \<open>
  C5, amended. When the invoice response has a true \<open>ok\<close> and a non-empty \<open>invoice_link\<close>,
  and the host has no \<open>openInvoice\<close>, \<open>createInvoice\<close> hands the link to
  \<open>openTelegramLink\<close>: after the request to the invoice endpoint, that call is the only
  effect, and no status handler is attached. When the call returns, neither the diagnostic
  line nor the error panel changes; when it raises, the error panel is shown with
  "error: invoice error: " followed by the reason.
\<close>

theorem invoice_fallback_link:
  assumes "truthy (sessionToken s)"
    and "inv_reply io = Gives data" and "\<not> nullish data"
    and "truthy (get_prop data ''ok'')" and "truthy (get_prop data ''invoice_link'')"
    and "tg = Some t" and "\<not> has_openInvoice t"
  shows "effects (createInvoice tg io packKey s) =
           effects s @ [Fetch (API @ ''/api/invoice'')
                          (JObj [(''session'', sessionToken s), (''pack_key'', packKey)]),
                        TgOpenTelegramLink (get_prop data ''invoice_link'')]
       \<and> listeners (createInvoice tg io packKey s) = listeners s
       \<and> (link_raises io = None \<longrightarrow>
            diagErr (createInvoice tg io packKey s) = diagErr s
          \<and> errorBox (createInvoice tg io packKey s) = errorBox s)
       \<and> (link_raises io = Some e \<longrightarrow>
            diagErr (createInvoice tg io packKey s) = ''error: invoice error: '' @ err_text e
          \<and> visible (errorBox (createInvoice tg io packKey s)))"
  using assms
  by (simp add: createInvoice_def invoice_try_def open_link_def emit_def Let_def showError_def
      setError_def or_else_def visible_def split: option.splits)

theorem invoice_fallback_link_witness:
  "effects (createInvoice (Some (tg0\<lparr>has_openInvoice := False\<rparr>)) inv_io0 (JStr ''pack_10'') page_tok)
     = [Fetch ''https://api.astrabotai.online/api/invoice''
          (JObj [(''session'', JStr ''tok''), (''pack_key'', JStr ''pack_10'')]),
        TgOpenTelegramLink (JStr ''https://t.me/$inv'')]
   \<and> listeners (createInvoice (Some (tg0\<lparr>has_openInvoice := False\<rparr>)) inv_io0 (JStr ''pack_10'') page_tok) = []
   \<and> diagErr (createInvoice (Some (tg0\<lparr>has_openInvoice := False\<rparr>)) inv_io0 (JStr ''pack_10'') page_tok) = []
   \<and> errorBox (createInvoice (Some (tg0\<lparr>has_openInvoice := False\<rparr>)) inv_io0 (JStr ''pack_10'') page_tok)
     = [''error'', ''hidden'']"
  using invoice_fallback_link [of page_tok inv_io0
      "JObj [(''ok'', JBool True), (''invoice_link'', JStr ''https://t.me/$inv'')]"
      "Some (tg0\<lparr>has_openInvoice := False\<rparr>)" "tg0\<lparr>has_openInvoice := False\<rparr>" "JStr ''pack_10''" exn0]
  by (simp add: page_tok_def page0_def inv_io0_def tg0_def API_def API_BASE_URL_def
      strip_trailing_slashes_def)

subsection \<open>A refused auth\<close>

text \<open>
  C6, as the claim states it, fails on a reply whose error code does not convert to a string:
  for \<open>{ok: false, error: {toString: 0}}\<close> the template of line 162 raises, \<open>auth\<close> ends
  with the TypeError, and the error panel stays hidden.
\<close>

theorem auth_rejected_unconvertible:
  "auth_reply (Some tg0) auth_io_unconvertible =
     Some (JObj [(''ok'', JBool False), (''error'', JObj [(''toString'', JNum False ''0'')])])
   \<and> fst (auth (Some tg0) auth_io_unconvertible page_tok) = Abrupt exn0
   \<and> errorBox (snd (auth (Some tg0) auth_io_unconvertible page_tok)) = [''error'', ''hidden'']
   \<and> diagErr (snd (auth (Some tg0) auth_io_unconvertible page_tok)) = []"
  by (simp add: auth_reply_def tg0_def auth_io_unconvertible_def page_tok_def page0_def auth_def
      Let_def auth_rejected_def emit_def tg_init_def setDiag_def or_else_def)

text \<open>
  C6, amended. When the auth response parses to a value whose \<open>ok\<close> is false, the session
  token, local storage, the displayed balance, the referral field and the list of packs are
  as before. When the message (if there is one) and the error code convert to strings,
  \<open>auth\<close> completes normally with the error panel visible, and the diagnostic line is
  "error: " followed by the error code of the server (the fixed "auth_failed" when the code
  is absent or fails the boolean test) and, when the server sent a non-empty message, by that
  message in parentheses. Otherwise \<open>auth\<close> ends with the TypeError of the conversion and
  the error panel is as before.
\<close>

theorem auth_rejected_halts:
  assumes "auth_reply tg io = Some data" and "\<not> truthy (get_prop data ''ok'')"
  shows "sessionToken (snd (auth tg io s)) = sessionToken s
       \<and> localStorage (snd (auth tg io s)) = localStorage s
       \<and> balanceEl (snd (auth tg io s)) = balanceEl s
       \<and> refLinkEl (snd (auth tg io s)) = refLinkEl s
       \<and> packsEl (snd (auth tg io s)) = packsEl s
       \<and> ((\<not> truthy (get_prop data ''message'') \<or> convertible (get_prop data ''message''))
            \<and> convertible (or_else (get_prop data ''error'') (JStr ''auth_failed'')) \<longrightarrow>
            fst (auth tg io s) = Normal
          \<and> visible (errorBox (snd (auth tg io s)))
          \<and> diagErr (snd (auth tg io s)) =
              ''error: '' @
              to_str (or_else
                (JStr (to_str (or_else (get_prop data ''error'') (JStr ''auth_failed''))
                       @ (if truthy (get_prop data ''message'')
                          then '' ('' @ to_str (get_prop data ''message'') @ '')'' else [])))
                (JStr emdash))
          \<and> (get_prop data ''error'' = JStr c \<and> c \<noteq> [] \<longrightarrow>
                diagErr (snd (auth tg io s)) =
                  ''error: '' @ c @ (if truthy (get_prop data ''message'')
                                    then '' ('' @ to_str (get_prop data ''message'') @ '')''
                                    else []))
          \<and> (get_prop data ''error'' = JUndef \<longrightarrow>
                diagErr (snd (auth tg io s)) =
                  ''error: auth_failed'' @ (if truthy (get_prop data ''message'')
                                    then '' ('' @ to_str (get_prop data ''message'') @ '')''
                                    else [])))
       \<and> (\<not> ((\<not> truthy (get_prop data ''message'') \<or> convertible (get_prop data ''message''))
               \<and> convertible (or_else (get_prop data ''error'') (JStr ''auth_failed''))) \<longrightarrow>
            fst (auth tg io s) = Abrupt (auth_type_error io)
          \<and> errorBox (snd (auth tg io s)) = errorBox s)"
proof -
  from assms(1) obtain t where t: "tg = Some t" using auth_reply_host by blast
  show ?thesis
    using assms(2)
    by (auto simp add: auth_reaches_reply [OF t assms(1)] auth_rejected_def showError_def
        setError_def emit_def tg_init_fields setDiag_def visible_def or_else_def Let_def)
qed

theorem auth_rejected_halts_witness:
  "fst (auth (Some tg0) auth_io_rejected page_tok) = Normal
   \<and> errorBox (snd (auth (Some tg0) auth_io_rejected page_tok)) = [''error'']
   \<and> diagErr (snd (auth (Some tg0) auth_io_rejected page_tok))
        = ''error: bad_init_data (signature mismatch)''
   \<and> sessionToken (snd (auth (Some tg0) auth_io_rejected page_tok)) = JStr ''tok''
   \<and> balanceEl (snd (auth (Some tg0) auth_io_rejected page_tok)) = ''0'' @ raskladov
   \<and> fst (auth (Some tg0) auth_io_unconvertible page_tok) = Abrupt exn0
   \<and> sessionToken (snd (auth (Some tg0) auth_io_unconvertible page_tok)) = JStr ''tok''"
  using auth_rejected_halts [of "Some tg0" auth_io_rejected
      "JObj [(''ok'', JBool False), (''error'', JStr ''bad_init_data''),
             (''message'', JStr ''signature mismatch'')]" page_tok "''bad_init_data''"]
    auth_rejected_halts [of "Some tg0" auth_io_unconvertible
      "JObj [(''ok'', JBool False), (''error'', JObj [(''toString'', JNum False ''0'')])]"
      page_tok "[]"]
  by (simp add: auth_reply_def tg0_def auth_io_rejected_def auth_io_unconvertible_def
      page_tok_def page0_def or_else_def auth_def Let_def auth_rejected_def showError_def
      setError_def emit_def tg_init_def setDiag_def)

subsection \<open>A cancelled or failed payment\<close>



subsection \<open>The session token is never the empty string\<close>

text \<open>
  C9, as the claim states it, fails when the backend sends a session that is not a string:
  line 167 keeps the number 123 as the token, which is neither null nor a string.
\<close>

theorem session_numeric_kept:
  "auth_reply (Some tg0) auth_io_numeric =
     Some (JObj [(''ok'', JBool True), (''session'', JNum True ''123''),
                 (''balance'', JNum True ''3'')])
   \<and> sessionToken (snd (startup (Some tg0) auth_io_numeric page0)) = JNum True ''123''
   \<and> \<not> null_or_nonempty_str (sessionToken (snd (startup (Some tg0) auth_io_numeric page0)))"
  by (simp add: auth_reply_def tg0_def auth_io_numeric_def startup_sessionToken or_else_def)

text \<open>
  C9, amended. At every point of a run (startup, then any clicks and status notifications)
  the session token is null or passes the boolean test, so it is never the empty string, and
  every request that carries a session carries one that is not the empty string. When the
  backend sends the session as a string (or null, or not at all), the token is null or a
  non-empty string. An accepted auth reply whose session is absent or empty leaves the token
  null and local storage as it was.
\<close>

theorem session_never_empty:
  "(sessionToken (run tg evs (snd (startup tg io html))) = JNull
      \<or> truthy (sessionToken (run tg evs (snd (startup tg io html)))))
 \<and> sessionToken (run tg evs (snd (startup tg io html))) \<noteq> JStr []
 \<and> list_all credential_ok (effects (run tg evs (snd (startup tg io html))))
 \<and> ((\<forall>data. auth_reply tg io = Some data \<and> truthy (get_prop data ''ok'')
         \<longrightarrow> str_or_absent (get_prop data ''session''))
      \<longrightarrow> null_or_nonempty_str (sessionToken (run tg evs (snd (startup tg io html)))))
 \<and> (\<forall>data. auth_reply tg io = Some data \<and> truthy (get_prop data ''ok'')
         \<and> (get_prop data ''session'' = JUndef \<or> get_prop data ''session'' = JStr [])
      \<longrightarrow> sessionToken (snd (startup tg io html)) = JNull
        \<and> localStorage (snd (startup tg io html)) = localStorage html)"
proof -
  let ?s = "snd (startup tg io html)"
  have tok: "sessionToken (run tg evs ?s) = sessionToken ?s"
    by (rule run_sessionToken)
  have a: "sessionToken ?s = JNull \<or> truthy (sessionToken ?s)"
    by (simp add: startup_sessionToken or_else_def split: option.splits)
  then have b: "sessionToken ?s \<noteq> JStr []" by auto
  have "list_all credential_ok (effects (initial html))" by (simp add: initial_def)
  then have "list_all credential_ok (effects ?s)"
    unfolding startup_def by (rule auth_credential)
  then have c: "list_all credential_ok (effects (run tg evs ?s))"
    using b by (rule run_credential)
  have d: "null_or_nonempty_str (sessionToken ?s)"
    if "\<forall>data. auth_reply tg io = Some data \<and> truthy (get_prop data ''ok'')
         \<longrightarrow> str_or_absent (get_prop data ''session'')"
  proof (cases "auth_reply tg io")
    case None
    then show ?thesis by (simp add: startup_sessionToken)
  next
    case (Some data)
    show ?thesis
    proof (cases "truthy (get_prop data ''ok'')")
      case True
      with that Some have "str_or_absent (get_prop data ''session'')" by blast
      then show ?thesis
        using Some True
        by (cases "get_prop data ''session''") (simp_all add: startup_sessionToken or_else_def)
    next
      case False
      then show ?thesis using Some by (simp add: startup_sessionToken)
    qed
  qed
  have e: "sessionToken ?s = JNull \<and> localStorage ?s = localStorage html"
    if "auth_reply tg io = Some data" "truthy (get_prop data ''ok'')"
       "get_prop data ''session'' = JUndef \<or> get_prop data ''session'' = JStr []" for data
  proof
    show "sessionToken ?s = JNull"
      using that by (auto simp add: startup_sessionToken or_else_def)
    show "localStorage ?s = localStorage html"
      using that by (auto simp add: startup_def auth_localStorage initial_def)
  qed
  show ?thesis using tok a b c d e by auto
qed

theorem session_never_empty_witness:
  "auth_reply (Some tg0) auth_io_nosession =
     Some (JObj [(''ok'', JBool True), (''session'', JStr []), (''balance'', JNum True ''5''),
           (''packages'', JArr [JObj [(''key'', JStr ''pack_10''), (''spreads'', JNum True ''10''),
                                      (''stars'', JNum True ''50'')]])])
 \<and> sessionToken (snd (startup (Some tg0) auth_io_nosession page_stored)) = JNull
 \<and> localStorage (snd (startup (Some tg0) auth_io_nosession page_stored))
      = localStorage page_stored
 \<and> null_or_nonempty_str (sessionToken (run (Some tg0) [PackClick 0 inv_io0]
      (snd (startup (Some tg0) auth_io_accepted page_stored))))
 \<and> list_all credential_ok (effects (run (Some tg0) [PackClick 0 inv_io0]
      (snd (startup (Some tg0) auth_io_accepted page_stored))))"
  using session_never_empty [of "Some tg0" "[PackClick 0 inv_io0]" auth_io_nosession page_stored]
    session_never_empty [of "Some tg0" "[PackClick 0 inv_io0]" auth_io_accepted page_stored]
  by (simp add: auth_reply_def tg0_def auth_io_nosession_def auth_io_accepted_def)

subsection \<open>An accepted auth without a session\<close>







end
